theory Spec2Isabelle
  imports Complex_Main
begin

section \<open>Salus Smart Home integration: a shallow embedding\<close>

text \<open>
  The development follows the three modules of \<^verbatim>\<open>custom_components/salus\<close>:
  \<^verbatim>\<open>config_flow.py\<close> (the EUID validator), \<^verbatim>\<open>climate.py\<close> (the translation tables and
  the thermostat entity) and \<^verbatim>\<open>coordinator.py\<close> (the data update coordinator).
\<close>

subsection \<open>config\_flow.py: the EUID validator\<close>

text \<open>
  A Python \<^verbatim>\<open>str\<close> is a sequence of code points, and \<^verbatim>\<open>{16}\<close> counts code points, so
  the validator's argument is a list of code points. \<open>str\<close> reads an ASCII literal as
  such a list.
\<close>

type_synonym py_str = "nat list"

definition str :: "string \<Rightarrow> py_str" where
  "str s = map of_char s"

text \<open>
  The fragment of Python's \<^verbatim>\<open>re\<close> syntax that \<^verbatim>\<open>EUID_REGEX\<close> uses, with no flags set:
  \<^item> \<^verbatim>\<open>^\<close> matches at the start of the string;
  \<^item> \<^verbatim>\<open>[...]{n}\<close> matches exactly \<open>n\<close> characters, each inside one of the ranges of
    the class;
  \<^item> \<^verbatim>\<open>$\<close> matches at the end of the string and also just before a newline that is
    the last character of the string.
\<close>

datatype re_item = Bol | Eol | ClassRepeat "(nat \<times> nat) list" nat

definition in_class :: "(nat \<times> nat) list \<Rightarrow> nat \<Rightarrow> bool" where
  "in_class ranges c = list_ex (\<lambda>(lo, hi). lo \<le> c \<and> c \<le> hi) ranges"

text \<open>
  \<open>re_match_from items pos rest\<close>: the pattern \<open>items\<close> matches at position \<open>pos\<close>,
  where \<open>rest\<close> is the text from \<open>pos\<close> on. As with \<^verbatim>\<open>re.match\<close>, the match need not
  reach the end of the text unless the pattern says so.
\<close>

fun re_match_from :: "re_item list \<Rightarrow> nat \<Rightarrow> py_str \<Rightarrow> bool" where
  "re_match_from [] pos rest = True"
| "re_match_from (Bol # items) pos rest = (pos = 0 \<and> re_match_from items pos rest)"
| "re_match_from (Eol # items) pos rest =
     ((rest = [] \<or> rest = [10]) \<and> re_match_from items pos rest)"
| "re_match_from (ClassRepeat ranges n # items) pos rest =
     (n \<le> length rest \<and> list_all (in_class ranges) (take n rest)
      \<and> re_match_from items (pos + n) (drop n rest))"

definition re_match :: "re_item list \<Rightarrow> py_str \<Rightarrow> bool" where
  "re_match items s = re_match_from items 0 s"

text \<open>\<^verbatim>\<open>EUID_REGEX = re.compile(r"^[0-9a-fA-F]{16}$")\<close>\<close>

definition EUID_REGEX :: "re_item list" where
  "EUID_REGEX = [Bol, ClassRepeat [(48, 57), (97, 102), (65, 70)] 16, Eol]"

definition validate_euid :: "py_str \<Rightarrow> bool" where
  "validate_euid euid = re_match EUID_REGEX euid"

text \<open>A well-formed EUID: sixteen characters, each a hexadecimal digit.\<close>

definition is_hex_digit :: "nat \<Rightarrow> bool" where
  "is_hex_digit c = ((48 \<le> c \<and> c \<le> 57) \<or> (97 \<le> c \<and> c \<le> 102) \<or> (65 \<le> c \<and> c \<le> 70))"

definition is_hex16 :: "py_str \<Rightarrow> bool" where
  "is_hex16 s = (length s = 16 \<and> list_all is_hex_digit s)"

subsection \<open>const.py\<close>

definition DEFAULT_EUID :: string where
  "DEFAULT_EUID = ''0000000000000000''"

definition DEFAULT_SCAN_INTERVAL :: nat where
  "DEFAULT_SCAN_INTERVAL = 30"

subsection \<open>climate.py: the translation tables\<close>

text \<open>
  \<^verbatim>\<open>HVACMode\<close> and \<^verbatim>\<open>HVACAction\<close> are enumerations of the host framework; the tables
  below mention only some of their members.
\<close>

datatype HVACMode = OFF | HEAT | COOL | HEAT_COOL | AUTO | DRY | FAN_ONLY

datatype HVACAction =
  COOLING | DEFROSTING | DRYING | FAN | HEATING | IDLE | ACTION_OFF | PREHEATING

text \<open>
  A dict display or comprehension inserts its items from left to right, a later item
  replacing an earlier one with the same key; \<^verbatim>\<open>d.get(k)\<close> is then application of the
  map and \<^verbatim>\<open>d.get(k, default)\<close> is \<open>dict_get\<close>.
\<close>

definition dict_of :: "('k \<times> 'v) list \<Rightarrow> ('k \<rightharpoonup> 'v)" where
  "dict_of items = foldl (\<lambda>m (k, v). m(k \<mapsto> v)) Map.empty items"

definition dict_get :: "('k \<rightharpoonup> 'v) \<Rightarrow> 'k \<Rightarrow> 'v \<Rightarrow> 'v" where
  "dict_get d k dflt = (case d k of None \<Rightarrow> dflt | Some v \<Rightarrow> v)"

definition HVAC_MODE_ITEMS :: "(string \<times> HVACMode) list" where
  "HVAC_MODE_ITEMS = [(''heat'', HEAT), (''off'', OFF), (''auto'', AUTO)]"

definition HVAC_MODE_MAP :: "string \<rightharpoonup> HVACMode" where
  "HVAC_MODE_MAP = dict_of HVAC_MODE_ITEMS"

text \<open>\<^verbatim>\<open>HVAC_MODE_REVERSE_MAP = {v: k for k, v in HVAC_MODE_MAP.items()}\<close>\<close>

definition HVAC_MODE_REVERSE_MAP :: "HVACMode \<rightharpoonup> string" where
  "HVAC_MODE_REVERSE_MAP = dict_of (map (\<lambda>(k, v). (v, k)) HVAC_MODE_ITEMS)"

definition HVAC_ACTION_MAP :: "string \<rightharpoonup> HVACAction" where
  "HVAC_ACTION_MAP =
     dict_of [(''heating'', HEATING), (''idle'', IDLE), (''off'', ACTION_OFF)]"

subsection \<open>Exceptions, effects and the environment\<close>

text \<open>
  The exceptions that a call into the gateway library or the host framework can raise,
  as far as the handlers of this integration tell them apart: the library's two
  exception classes, any other subclass of \<^verbatim>\<open>Exception\<close> (a timeout of the
  \<^verbatim>\<open>async_timeout\<close> block is one), and anything that is only a \<^verbatim>\<open>BaseException\<close>
  (a cancellation), which \<^verbatim>\<open>except Exception\<close> does not catch. The string is
  \<^verbatim>\<open>str(err)\<close>.
\<close>

datatype exn =
  IT600AuthenticationError string
| IT600ConnectionError string
| Other_Exception string
| Other_BaseException string

fun exn_str :: "exn \<Rightarrow> string" where
  "exn_str (IT600AuthenticationError m) = m"
| "exn_str (IT600ConnectionError m) = m"
| "exn_str (Other_Exception m) = m"
| "exn_str (Other_BaseException m) = m"

fun is_Exception :: "exn \<Rightarrow> bool" where
  "is_Exception (Other_BaseException m) = False"
| "is_Exception e = True"

text \<open>
  What a method of this integration raises: the two exceptions of the host framework
  that the coordinator raises itself, or an exception that passes through unhandled.
\<close>

datatype error = ConfigEntryAuthFailed string | UpdateFailed string | Uncaught exn

datatype IT600Gateway = IT600Gateway (gw_host: string) (gw_euid: string)

text \<open>
  A thermostat as the gateway library reports it. The fields that the code reads only
  behind \<^verbatim>\<open>hasattr\<close> are optional: \<open>None\<close> is an absent attribute.
\<close>

record climate_device =
  dev_name :: string
  dev_available :: bool
  dev_current_temperature :: real
  dev_target_temperature :: real
  dev_min_temp :: "real option"
  dev_max_temp :: "real option"
  dev_hvac_mode :: "string option"
  dev_hvac_action :: "string option"
  dev_preset_mode :: "string option"

type_synonym climate_devices = "string \<rightharpoonup> climate_device"

text \<open>The coordinator's data: the dict \<^verbatim>\<open>{"climate": climate_devices}\<close>.\<close>

type_synonym snapshot = "string \<rightharpoonup> climate_devices"

text \<open>
  Everything the integration does besides returning is recorded in a trace: each call
  of a method of the gateway object, each refresh request to the host framework and
  each log record (with its format string).
\<close>

datatype gateway_call =
  Connect
| Poll_status
| Get_climate_devices
| Close
| Set_climate_device_temperature string real
| Set_climate_device_mode string string
| Set_climate_device_preset string string

datatype log_level = DEBUG | WARNING

datatype effect = Gateway gateway_call | Request_refresh | Log log_level string

fun is_gateway_call :: "effect \<Rightarrow> bool" where
  "is_gateway_call (Gateway c) = True"
| "is_gateway_call e = False"

text \<open>
  The environment answers each call: \<open>None\<close> is a normal return, \<open>Some e\<close> the
  exception raised. The gateway library and the host framework are not part of this
  integration, so their behaviour is a parameter of every operation.
\<close>

record environment =
  on_connect :: "exn option"
  on_poll_status :: "exn option"
  on_get_climate_devices :: "exn + climate_devices"
  on_close :: "exn option"
  on_set_climate_device_temperature :: "string \<Rightarrow> real \<Rightarrow> exn option"
  on_set_climate_device_mode :: "string \<Rightarrow> string \<Rightarrow> exn option"
  on_set_climate_device_preset :: "string \<Rightarrow> string \<Rightarrow> exn option"
  on_request_refresh :: "exn option"

subsection \<open>coordinator.py: the data update coordinator\<close>

text \<open>
  The fields of \<^verbatim>\<open>SalusDataUpdateCoordinator\<close>: \<^verbatim>\<open>_host\<close>, \<^verbatim>\<open>_euid\<close>, \<^verbatim>\<open>_gateway\<close> and the
  inherited \<^verbatim>\<open>data\<close> (which the host framework sets to what \<^verbatim>\<open>_async_update_data\<close>
  returns, and which is \<^verbatim>\<open>None\<close> before). \<open>effects\<close> is the trace so far.
\<close>

record coordinator =
  host :: string
  euid :: string
  gateway :: "IT600Gateway option"
  data :: "snapshot option"
  effects :: "effect list"

definition emit :: "effect \<Rightarrow> coordinator \<Rightarrow> coordinator" where
  "emit e s = s\<lparr>effects := effects s @ [e]\<rparr>"

definition coordinator_init :: "string \<Rightarrow> string \<Rightarrow> coordinator" where
  "coordinator_init h e = \<lparr>host = h, euid = e, gateway = None, data = None, effects = []\<rparr>"

text \<open>The \<^verbatim>\<open>except\<close> clauses of \<^verbatim>\<open>_async_setup\<close>; any other exception passes through.\<close>

fun setup_handler :: "exn \<Rightarrow> error" where
  "setup_handler (IT600AuthenticationError m) =
     ConfigEntryAuthFailed ''Authentication failed - check EUID''"
| "setup_handler (IT600ConnectionError m) =
     UpdateFailed (''Failed to connect to gateway: '' @ m)"
| "setup_handler e = Uncaught e"

definition async_setup :: "environment \<Rightarrow> coordinator \<Rightarrow> (error + unit) \<times> coordinator" where
  "async_setup env s =
     (let s1 = emit (Log DEBUG ''Connecting to Salus gateway at %s'') s;
          s2 = s1\<lparr>gateway := Some (IT600Gateway (host s1) (euid s1))\<rparr>;
          s3 = emit (Gateway Connect) s2
      in case on_connect env of
           None \<Rightarrow> (Inr (), emit (Log DEBUG ''Successfully connected to Salus gateway'') s3)
         | Some e \<Rightarrow> (Inl (setup_handler e), s3))"

text \<open>The \<^verbatim>\<open>except\<close> clauses of \<^verbatim>\<open>_async_update_data\<close>, in their order.\<close>

fun update_handler :: "exn \<Rightarrow> error" where
  "update_handler (IT600AuthenticationError m) = ConfigEntryAuthFailed ''Authentication failed''"
| "update_handler (IT600ConnectionError m) = UpdateFailed (''Connection error: '' @ m)"
| "update_handler (Other_Exception m) =
     UpdateFailed (''Error communicating with gateway: '' @ m)"
| "update_handler e = Uncaught e"

definition async_update_data ::
  "environment \<Rightarrow> coordinator \<Rightarrow> (error + snapshot) \<times> coordinator" where
  "async_update_data env s =
     (case (if gateway s = None then async_setup env s else (Inr (), s)) of
        (Inl err, s0) \<Rightarrow> (Inl err, s0)
      | (Inr u, s0) \<Rightarrow>
          (let s1 = emit (Gateway Poll_status) s0
           in case on_poll_status env of
                Some e \<Rightarrow> (Inl (update_handler e), s1)
              | None \<Rightarrow>
                  (let s2 = emit (Gateway Get_climate_devices) s1
                   in case on_get_climate_devices env of
                        Inl e \<Rightarrow> (Inl (update_handler e), s2)
                      | Inr climate_devices \<Rightarrow>
                          (Inr [''climate'' \<mapsto> climate_devices],
                           emit (Log DEBUG ''Polled %d climate devices'') s2))))"

definition async_close :: "environment \<Rightarrow> coordinator \<Rightarrow> (error + unit) \<times> coordinator" where
  "async_close env s =
     (case gateway s of
        None \<Rightarrow> (Inr (), s)
      | Some g \<Rightarrow>
          (let s1 = emit (Gateway Close) s
           in case on_close env of
                Some e \<Rightarrow> (Inl (Uncaught e), s1)
              | None \<Rightarrow>
                  (Inr (), emit (Log DEBUG ''Closed connection to Salus gateway'')
                             (s1\<lparr>gateway := None\<rparr>))))"

text \<open>
  The three command methods have the same body up to the gateway method called and
  the prefix of the message: the guard on \<^verbatim>\<open>_gateway\<close>, then a \<^verbatim>\<open>try\<close> block with the
  gateway call followed by \<^verbatim>\<open>async_request_refresh\<close>, and \<^verbatim>\<open>except Exception\<close>
  around both.
\<close>

definition command_handler :: "string \<Rightarrow> exn \<Rightarrow> error" where
  "command_handler prefix e =
     (if is_Exception e then UpdateFailed (prefix @ exn_str e) else Uncaught e)"

definition command ::
  "string \<Rightarrow> gateway_call \<Rightarrow> exn option \<Rightarrow> environment \<Rightarrow> coordinator
     \<Rightarrow> (error + unit) \<times> coordinator" where
  "command prefix call answer env s =
     (case gateway s of
        None \<Rightarrow> (Inl (UpdateFailed ''Gateway not connected''), s)
      | Some g \<Rightarrow>
          (let s1 = emit (Gateway call) s
           in case answer of
                Some e \<Rightarrow> (Inl (command_handler prefix e), s1)
              | None \<Rightarrow>
                  (let s2 = emit Request_refresh s1
                   in case on_request_refresh env of
                        Some e \<Rightarrow> (Inl (command_handler prefix e), s2)
                      | None \<Rightarrow> (Inr (), s2))))"

definition async_set_temperature ::
  "environment \<Rightarrow> string \<Rightarrow> real \<Rightarrow> coordinator \<Rightarrow> (error + unit) \<times> coordinator" where
  "async_set_temperature env device_id temperature s =
     command ''Failed to set temperature: ''
       (Set_climate_device_temperature device_id temperature)
       (on_set_climate_device_temperature env device_id temperature) env s"

definition async_set_hvac_mode ::
  "environment \<Rightarrow> string \<Rightarrow> string \<Rightarrow> coordinator \<Rightarrow> (error + unit) \<times> coordinator" where
  "async_set_hvac_mode env device_id hvac_mode s =
     command ''Failed to set HVAC mode: ''
       (Set_climate_device_mode device_id hvac_mode)
       (on_set_climate_device_mode env device_id hvac_mode) env s"

definition async_set_preset_mode ::
  "environment \<Rightarrow> string \<Rightarrow> string \<Rightarrow> coordinator \<Rightarrow> (error + unit) \<times> coordinator" where
  "async_set_preset_mode env device_id preset_mode s =
     command ''Failed to set preset mode: ''
       (Set_climate_device_preset device_id preset_mode)
       (on_set_climate_device_preset env device_id preset_mode) env s"

subsection \<open>climate.py: the thermostat entity\<close>

record entity =
  device_id :: string
  unique_id :: string

definition entity_init :: "string \<Rightarrow> string \<Rightarrow> entity" where
  "entity_init dev entry_id = \<lparr>device_id = dev, unique_id = entry_id @ ''_'' @ dev\<rparr>"

text \<open>
  \<^verbatim>\<open>self.coordinator.data.get("climate", {}).get(self._device_id)\<close>: while \<^verbatim>\<open>data\<close> is
  still \<^verbatim>\<open>None\<close> the attribute lookup raises.
\<close>

definition device_data :: "coordinator \<Rightarrow> entity \<Rightarrow> error + climate_device option" where
  "device_data s ent =
     (case data s of
        None \<Rightarrow> Inl (Uncaught (Other_Exception ''AttributeError''))
      | Some snap \<Rightarrow> Inr (dict_get snap ''climate'' Map.empty (device_id ent)))"

text \<open>
  \<^verbatim>\<open>if device and hasattr(device, "hvac_mode")\<close>: a device object is truthy, so the test
  is that the lookup found one and that it has the attribute.
\<close>

definition hvac_mode :: "coordinator \<Rightarrow> entity \<Rightarrow> error + HVACMode" where
  "hvac_mode s ent =
     (case device_data s ent of
        Inl err \<Rightarrow> Inl err
      | Inr None \<Rightarrow> Inr HEAT
      | Inr (Some device) \<Rightarrow>
          (case dev_hvac_mode device of
             None \<Rightarrow> Inr HEAT
           | Some raw \<Rightarrow> Inr (dict_get HVAC_MODE_MAP raw HEAT)))"

definition hvac_modes :: "HVACMode list" where
  "hvac_modes = [HEAT, OFF]"

definition hvac_action :: "coordinator \<Rightarrow> entity \<Rightarrow> error + HVACAction option" where
  "hvac_action s ent =
     (case device_data s ent of
        Inl err \<Rightarrow> Inl err
      | Inr None \<Rightarrow> Inr None
      | Inr (Some device) \<Rightarrow>
          (case dev_hvac_action device of
             None \<Rightarrow> Inr None
           | Some raw \<Rightarrow> Inr (Some (dict_get HVAC_ACTION_MAP raw IDLE))))"

text \<open>
  The entity's command methods. \<open>kw_temperature\<close> is \<^verbatim>\<open>kwargs.get(ATTR_TEMPERATURE)\<close>.
\<close>

definition climate_async_set_temperature ::
  "environment \<Rightarrow> entity \<Rightarrow> real option \<Rightarrow> coordinator \<Rightarrow> (error + unit) \<times> coordinator" where
  "climate_async_set_temperature env ent kw_temperature s =
     (case kw_temperature of
        None \<Rightarrow> (Inr (), s)
      | Some temperature \<Rightarrow>
          async_set_temperature env (device_id ent) temperature
            (emit (Log DEBUG ''Setting temperature for %s to %s'') s))"

definition climate_async_set_hvac_mode ::
  "environment \<Rightarrow> entity \<Rightarrow> HVACMode \<Rightarrow> coordinator \<Rightarrow> (error + unit) \<times> coordinator" where
  "climate_async_set_hvac_mode env ent mode s =
     (case HVAC_MODE_REVERSE_MAP mode of
        None \<Rightarrow> (Inr (), emit (Log WARNING ''Unsupported HVAC mode: %s'') s)
      | Some m \<Rightarrow>
          async_set_hvac_mode env (device_id ent) m
            (emit (Log DEBUG ''Setting HVAC mode for %s to %s'') s))"

definition climate_async_set_preset_mode ::
  "environment \<Rightarrow> entity \<Rightarrow> string \<Rightarrow> coordinator \<Rightarrow> (error + unit) \<times> coordinator" where
  "climate_async_set_preset_mode env ent preset_mode s =
     async_set_preset_mode env (device_id ent) preset_mode
       (emit (Log DEBUG ''Setting preset mode for %s to %s'') s)"

subsection \<open>Example values\<close>

text \<open>
  One thermostat, an environment in which every call returns normally, and a
  coordinator after a first refresh that found the thermostat.
\<close>

definition example_device :: climate_device where
  "example_device =
     \<lparr>dev_name = ''dev1 thermostat'', dev_available = True,
      dev_current_temperature = 21, dev_target_temperature = 39 / 2,
      dev_min_temp = None, dev_max_temp = None,
      dev_hvac_mode = Some ''heat'', dev_hvac_action = Some ''heating'',
      dev_preset_mode = None\<rparr>"

definition example_env :: environment where
  "example_env =
     \<lparr>on_connect = None, on_poll_status = None,
      on_get_climate_devices = Inr [''dev1'' \<mapsto> example_device],
      on_close = None,
      on_set_climate_device_temperature = (\<lambda>d t. None),
      on_set_climate_device_mode = (\<lambda>d m. None),
      on_set_climate_device_preset = (\<lambda>d p. None),
      on_request_refresh = None\<rparr>"

definition example_running :: coordinator where
  "example_running =
     \<lparr>host = ''10.0.0.5'', euid = ''0011223344556677'',
      gateway = Some (IT600Gateway ''10.0.0.5'' ''0011223344556677''),
      data = Some [''climate'' \<mapsto> [''dev1'' \<mapsto> example_device]],
      effects = []\<rparr>"

section \<open>Properties\<close>

subsection \<open>The EUID validator\<close>

lemma in_class_hex: "in_class [(48, 57), (97, 102), (65, 70)] = is_hex_digit"
  by (rule ext) (auto simp add: in_class_def is_hex_digit_def)

lemma validate_euid_unfold:
  "validate_euid s \<longleftrightarrow>
     16 \<le> length s \<and> list_all is_hex_digit (take 16 s) \<and> (drop 16 s = [] \<or> drop 16 s = [10])"
  by (auto simp add: validate_euid_def re_match_def EUID_REGEX_def in_class_hex)

text \<open>
  The validator accepts every well-formed EUID, and the strings it accepts are the
  well-formed EUIDs and the well-formed EUIDs followed by one newline.
\<close>

lemma validate_euid_accepts_hex16: "is_hex16 s \<Longrightarrow> validate_euid s"
  by (simp add: validate_euid_unfold is_hex16_def)

lemma validate_euid_iff:
  "validate_euid s \<longleftrightarrow> is_hex16 s \<or> (\<exists>p. s = p @ [10] \<and> is_hex16 p)"
proof
  assume "validate_euid s"
  then have len: "16 \<le> length s" and hex: "list_all is_hex_digit (take 16 s)"
    and tl: "drop 16 s = [] \<or> drop 16 s = [10]"
    by (simp_all add: validate_euid_unfold)
  from tl show "is_hex16 s \<or> (\<exists>p. s = p @ [10] \<and> is_hex16 p)"
  proof
    assume "drop 16 s = []"
    with len hex show ?thesis by (simp add: is_hex16_def)
  next
    assume d: "drop 16 s = [10]"
    have "s = take 16 s @ drop 16 s" by simp
    with d have "s = take 16 s @ [10]" by simp
    moreover from len hex have "is_hex16 (take 16 s)" by (simp add: is_hex16_def)
    ultimately show ?thesis by blast
  qed
next
  assume "is_hex16 s \<or> (\<exists>p. s = p @ [10] \<and> is_hex16 p)"
  then show "validate_euid s"
    by (auto simp add: validate_euid_unfold is_hex16_def)
qed

text \<open>
  C2. The validator is claimed to return true exactly on the strings of sixteen
  hexadecimal digits and false on every other string, a trailing newline included.
  On the default EUID followed by a newline, which has seventeen characters and is not
  a well-formed EUID, it returns true: \<^verbatim>\<open>$\<close> also matches before a final newline.
\<close>

theorem validate_euid_trailing_newline:
  "validate_euid (str DEFAULT_EUID @ [10])
   \<and> \<not> is_hex16 (str DEFAULT_EUID @ [10])
   \<and> length (str DEFAULT_EUID @ [10]) = 17"
  by (simp add: validate_euid_unfold is_hex16_def str_def is_hex_digit_def DEFAULT_EUID_def)

subsection \<open>The translation tables\<close>

lemma HVAC_MODE_MAP_cases:
  "HVAC_MODE_MAP raw =
     (if raw = ''auto'' then Some AUTO else if raw = ''off'' then Some OFF
      else if raw = ''heat'' then Some HEAT else None)"
  by (simp add: HVAC_MODE_MAP_def dict_of_def HVAC_MODE_ITEMS_def)

lemma HVAC_MODE_REVERSE_MAP_cases:
  "HVAC_MODE_REVERSE_MAP m =
     (if m = AUTO then Some ''auto'' else if m = OFF then Some ''off''
      else if m = HEAT then Some ''heat'' else None)"
  by (simp add: HVAC_MODE_REVERSE_MAP_def dict_of_def HVAC_MODE_ITEMS_def)

lemma HVAC_ACTION_MAP_cases:
  "HVAC_ACTION_MAP raw =
     (if raw = ''off'' then Some ACTION_OFF else if raw = ''idle'' then Some IDLE
      else if raw = ''heating'' then Some HEATING else None)"
  by (simp add: HVAC_ACTION_MAP_def dict_of_def)

text \<open>The two mode tables are inverse to each other, in both directions.\<close>

lemma HVAC_MODE_MAP_inverse:
  "HVAC_MODE_MAP raw = Some m \<longleftrightarrow> HVAC_MODE_REVERSE_MAP m = Some raw"
  by (auto simp add: HVAC_MODE_MAP_cases HVAC_MODE_REVERSE_MAP_cases split: if_splits)

text \<open>
  C6. The mode table sends "heat" to HEAT, "off" to OFF and "auto" to AUTO, the action
  table sends "heating" to HEATING, and for each of the three raw modes the reverse
  table applied to the result of the forward table gives the raw mode back.
\<close>

theorem hvac_mode_tables_round_trip:
  "HVAC_MODE_MAP ''heat'' = Some HEAT
   \<and> HVAC_MODE_MAP ''off'' = Some OFF
   \<and> HVAC_MODE_MAP ''auto'' = Some AUTO
   \<and> HVAC_ACTION_MAP ''heating'' = Some HEATING
   \<and> (\<forall>raw \<in> {''heat'', ''off'', ''auto''}.
        \<exists>m. HVAC_MODE_MAP raw = Some m \<and> HVAC_MODE_REVERSE_MAP m = Some raw)"
  by (simp add: HVAC_MODE_MAP_cases HVAC_MODE_REVERSE_MAP_cases HVAC_ACTION_MAP_cases)

theorem hvac_mode_tables_round_trip_witness:
  "''off'' \<in> {''heat'', ''off'', ''auto''}
   \<and> HVAC_MODE_MAP ''off'' = Some OFF \<and> HVAC_MODE_REVERSE_MAP OFF = Some ''off''"
  using hvac_mode_tables_round_trip
  by (simp add: HVAC_MODE_REVERSE_MAP_cases)

subsection \<open>The coordinator: polling\<close>

lemma emit_simps [simp]:
  "effects (emit e s) = effects s @ [e]"
  "gateway (emit e s) = gateway s"
  "data (emit e s) = data s"
  "host (emit e s) = host s"
  "euid (emit e s) = euid s"
  by (simp_all add: emit_def)

lemma async_setup_sets_gateway:
  "gateway (snd (async_setup env s)) = Some (IT600Gateway (host s) (euid s))"
  by (simp add: async_setup_def Let_def split: option.splits)

lemma async_update_data_data: "data (snd (async_update_data env s)) = data s"
  by (simp add: async_update_data_def async_setup_def Let_def
      split: option.splits sum.splits prod.splits)

lemma async_update_data_device_data:
  "device_data (snd (async_update_data env s)) ent = device_data s ent"
  by (simp add: device_data_def async_update_data_data)

lemma async_update_data_poll_raises:
  assumes "gateway s \<noteq> None \<or> on_connect env = None"
    and "on_poll_status env = Some e
         \<or> (on_poll_status env = None \<and> on_get_climate_devices env = Inl e)"
  shows "fst (async_update_data env s) = Inl (update_handler e)"
  using assms
  by (auto simp add: async_update_data_def async_setup_def Let_def split: option.splits)

lemma async_update_data_connect_raises:
  assumes "gateway s = None" and "on_connect env = Some e"
  shows "fst (async_update_data env s) = Inl (setup_handler e)"
  using assms by (simp add: async_update_data_def async_setup_def Let_def)

text \<open>
  C1. When a poll reaches the gateway (the coordinator already holds a gateway, or the
  connection made first succeeds) and \<^verbatim>\<open>poll_status\<close>, or the retrieval of the devices
  after it, raises a connection error, \<^verbatim>\<open>_async_update_data\<close> raises \<^verbatim>\<open>UpdateFailed\<close>
  and returns no snapshot; the coordinator's \<open>data\<close> is what it was, and every entity
  reads the same device data as before.
\<close>

theorem poll_connection_error_keeps_snapshot:
  assumes "gateway s \<noteq> None \<or> on_connect env = None"
    and "on_poll_status env = Some (IT600ConnectionError m)
         \<or> (on_poll_status env = None
            \<and> on_get_climate_devices env = Inl (IT600ConnectionError m))"
  shows "fst (async_update_data env s) = Inl (UpdateFailed (''Connection error: '' @ m))
         \<and> data (snd (async_update_data env s)) = data s
         \<and> (\<forall>ent. device_data (snd (async_update_data env s)) ent = device_data s ent)"
  using async_update_data_poll_raises [OF assms]
  by (simp add: async_update_data_data async_update_data_device_data)

theorem poll_connection_error_keeps_snapshot_witness:
  "gateway example_running \<noteq> None
   \<and> on_poll_status (example_env\<lparr>on_poll_status := Some (IT600ConnectionError ''timed out'')\<rparr>)
       = Some (IT600ConnectionError ''timed out'')
   \<and> fst (async_update_data
            (example_env\<lparr>on_poll_status := Some (IT600ConnectionError ''timed out'')\<rparr>)
            example_running)
       = Inl (UpdateFailed ''Connection error: timed out'')
   \<and> data (snd (async_update_data
            (example_env\<lparr>on_poll_status := Some (IT600ConnectionError ''timed out'')\<rparr>)
            example_running))
       = data example_running
   \<and> device_data (snd (async_update_data
            (example_env\<lparr>on_poll_status := Some (IT600ConnectionError ''timed out'')\<rparr>)
            example_running)) (entity_init ''dev1'' ''entry1'')
       = Inr (Some example_device)"
  using poll_connection_error_keeps_snapshot
    [of example_running
        "example_env\<lparr>on_poll_status := Some (IT600ConnectionError ''timed out'')\<rparr>"
        "''timed out''"]
  by (simp add: example_running_def device_data_def dict_get_def entity_init_def)

text \<open>
  C3. During the first refresh, when no snapshot has been stored yet, an authentication
  error of the gateway, raised by \<^verbatim>\<open>connect\<close> inside \<^verbatim>\<open>_async_setup\<close> or by the poll
  that follows a successful connection, makes \<^verbatim>\<open>_async_update_data\<close> raise
  \<^verbatim>\<open>ConfigEntryAuthFailed\<close>, which is not \<^verbatim>\<open>UpdateFailed\<close>; it returns no snapshot and
  \<open>data\<close> stays \<^verbatim>\<open>None\<close>. \<^verbatim>\<open>_async_setup\<close> called on its own raises the same exception.
\<close>

theorem bootstrap_auth_failure:
  assumes "data s = None"
    and "(gateway s = None \<and> on_connect env = Some (IT600AuthenticationError m))
         \<or> ((gateway s \<noteq> None \<or> on_connect env = None)
            \<and> (on_poll_status env = Some (IT600AuthenticationError m)
               \<or> (on_poll_status env = None
                  \<and> on_get_climate_devices env = Inl (IT600AuthenticationError m))))"
  shows "(fst (async_update_data env s)
            = Inl (ConfigEntryAuthFailed ''Authentication failed - check EUID'')
          \<or> fst (async_update_data env s) = Inl (ConfigEntryAuthFailed ''Authentication failed''))
         \<and> data (snd (async_update_data env s)) = None
         \<and> (on_connect env = Some (IT600AuthenticationError m) \<longrightarrow>
              fst (async_setup env s)
                = Inl (ConfigEntryAuthFailed ''Authentication failed - check EUID'')
              \<and> data (snd (async_setup env s)) = None)"
proof -
  have raised: "fst (async_update_data env s)
            = Inl (ConfigEntryAuthFailed ''Authentication failed - check EUID'')
          \<or> fst (async_update_data env s) = Inl (ConfigEntryAuthFailed ''Authentication failed'')"
    using assms(2)
  proof (rule disjE)
    assume a: "gateway s = None \<and> on_connect env = Some (IT600AuthenticationError m)"
    have "fst (async_update_data env s) = Inl (setup_handler (IT600AuthenticationError m))"
      by (rule async_update_data_connect_raises [OF conjunct1 [OF a] conjunct2 [OF a]])
    then show ?thesis by simp
  next
    assume b: "(gateway s \<noteq> None \<or> on_connect env = None)
            \<and> (on_poll_status env = Some (IT600AuthenticationError m)
               \<or> (on_poll_status env = None
                  \<and> on_get_climate_devices env = Inl (IT600AuthenticationError m)))"
    have "fst (async_update_data env s) = Inl (update_handler (IT600AuthenticationError m))"
      by (rule async_update_data_poll_raises [OF conjunct1 [OF b] conjunct2 [OF b]])
    then show ?thesis by simp
  qed
  have unpublished: "data (snd (async_update_data env s)) = None"
    using assms(1) by (simp add: async_update_data_data)
  have connect_step: "on_connect env = Some (IT600AuthenticationError m) \<longrightarrow>
      fst (async_setup env s) = Inl (ConfigEntryAuthFailed ''Authentication failed - check EUID'')
      \<and> data (snd (async_setup env s)) = None"
    using assms(1) by (simp add: async_setup_def Let_def)
  show ?thesis
    by (rule conjI [OF raised conjI [OF unpublished connect_step]])
qed

theorem bootstrap_auth_failure_witness:
  "data (coordinator_init ''10.0.0.5'' ''0011223344556677'') = None
   \<and> gateway (coordinator_init ''10.0.0.5'' ''0011223344556677'') = None
   \<and> on_connect (example_env\<lparr>on_connect := Some (IT600AuthenticationError ''bad euid'')\<rparr>)
       = Some (IT600AuthenticationError ''bad euid'')
   \<and> fst (async_update_data
            (example_env\<lparr>on_connect := Some (IT600AuthenticationError ''bad euid'')\<rparr>)
            (coordinator_init ''10.0.0.5'' ''0011223344556677''))
       = Inl (ConfigEntryAuthFailed ''Authentication failed - check EUID'')
   \<and> data (snd (async_update_data
            (example_env\<lparr>on_connect := Some (IT600AuthenticationError ''bad euid'')\<rparr>)
            (coordinator_init ''10.0.0.5'' ''0011223344556677'')))
       = None
   \<and> fst (async_setup
            (example_env\<lparr>on_connect := Some (IT600AuthenticationError ''bad euid'')\<rparr>)
            (coordinator_init ''10.0.0.5'' ''0011223344556677''))
       = Inl (ConfigEntryAuthFailed ''Authentication failed - check EUID'')"
  using bootstrap_auth_failure
    [of "coordinator_init ''10.0.0.5'' ''0011223344556677''"
        "example_env\<lparr>on_connect := Some (IT600AuthenticationError ''bad euid'')\<rparr>"
        "''bad euid''"]
  by (simp add: coordinator_init_def async_update_data_def async_setup_def)


subsection \<open>Commands\<close>

lemma command_not_connected:
  "gateway s = None \<Longrightarrow>
   command prefix call answer env s = (Inl (UpdateFailed ''Gateway not connected''), s)"
  by (simp add: command_def)

lemma command_effects:
  "gateway s = Some g \<Longrightarrow>
   effects (snd (command prefix call answer env s)) =
     (if answer = None then effects s @ [Gateway call, Request_refresh]
      else effects s @ [Gateway call])"
  by (simp add: command_def Let_def split: option.splits)

lemma command_result:
  "gateway s = Some g \<Longrightarrow>
   fst (command prefix call answer env s) =
     (case answer of
        Some e \<Rightarrow> Inl (command_handler prefix e)
      | None \<Rightarrow>
          (case on_request_refresh env of
             Some e \<Rightarrow> Inl (command_handler prefix e)
           | None \<Rightarrow> Inr ()))"
  by (simp add: command_def Let_def split: option.splits)

lemma command_data_update:
  "command prefix call answer env (s\<lparr>data := d\<rparr>) =
     (fst (command prefix call answer env s), (snd (command prefix call answer env s))\<lparr>data := d\<rparr>)"
  by (simp add: command_def Let_def emit_def split: option.splits)

lemma async_close_closed: "gateway s = None \<Longrightarrow> async_close env s = (Inr (), s)"
  by (simp add: async_close_def)

lemma async_close_returns:
  "fst (async_close env s) = Inr () \<Longrightarrow> gateway (snd (async_close env s)) = None"
  by (auto simp add: async_close_def Let_def split: option.splits)


text \<open>
  The guard of the commands tests the gateway reference, not the connection.
  \<^verbatim>\<open>_async_setup\<close> stores the gateway object before it connects, so after a first
  refresh whose connection failed the reference is set: a command issued then is not
  refused, it reaches the gateway.
\<close>

theorem command_after_failed_connect_counterexample:
  "fst (async_update_data (example_env\<lparr>on_connect := Some (IT600ConnectionError ''unreachable'')\<rparr>) (coordinator_init ''10.0.0.5'' ''0011223344556677''))
     = Inl (UpdateFailed ''Failed to connect to gateway: unreachable'')
   \<and> gateway (snd (async_update_data (example_env\<lparr>on_connect := Some (IT600ConnectionError ''unreachable'')\<rparr>) (coordinator_init ''10.0.0.5'' ''0011223344556677'')))
     = Some (IT600Gateway ''10.0.0.5'' ''0011223344556677'')
   \<and> fst (async_set_temperature example_env ''dev1'' 20
            (snd (async_update_data (example_env\<lparr>on_connect := Some (IT600ConnectionError ''unreachable'')\<rparr>) (coordinator_init ''10.0.0.5'' ''0011223344556677''))))
     = Inr ()
   \<and> effects (snd (async_set_temperature example_env ''dev1'' 20
            (snd (async_update_data (example_env\<lparr>on_connect := Some (IT600ConnectionError ''unreachable'')\<rparr>) (coordinator_init ''10.0.0.5'' ''0011223344556677'')))))
     = [Log DEBUG ''Connecting to Salus gateway at %s'', Gateway Connect,
        Gateway (Set_climate_device_temperature ''dev1'' 20), Request_refresh]"
  by (simp add: async_update_data_def async_setup_def coordinator_init_def
      async_set_temperature_def command_def example_env_def emit_def)

text \<open>
  C10, as amended. While the coordinator's gateway reference is \<^verbatim>\<open>None\<close>, each of the
  three commands raises \<^verbatim>\<open>UpdateFailed\<close> with the message "Gateway not connected" and
  leaves the coordinator as it was: no gateway call, no refresh request, no log record.
  The reference is \<^verbatim>\<open>None\<close> on a newly constructed coordinator and after a call of
  \<^verbatim>\<open>async_close\<close> that returned.
\<close>

theorem command_without_gateway:
  "(gateway s = None \<longrightarrow>
      async_set_temperature env device temperature s
        = (Inl (UpdateFailed ''Gateway not connected''), s)
      \<and> async_set_hvac_mode env device mode s
        = (Inl (UpdateFailed ''Gateway not connected''), s)
      \<and> async_set_preset_mode env device preset s
        = (Inl (UpdateFailed ''Gateway not connected''), s))
   \<and> gateway (coordinator_init h e) = None
   \<and> (fst (async_close env' s') = Inr () \<longrightarrow> gateway (snd (async_close env' s')) = None)"
  by (simp add: async_set_temperature_def async_set_hvac_mode_def async_set_preset_mode_def
      command_not_connected coordinator_init_def async_close_returns)

theorem command_without_gateway_witness:
  "gateway (coordinator_init ''10.0.0.5'' ''0011223344556677'') = None
   \<and> async_set_temperature example_env ''dev1'' 20 (coordinator_init ''10.0.0.5'' ''0011223344556677'')
       = (Inl (UpdateFailed ''Gateway not connected''), coordinator_init ''10.0.0.5'' ''0011223344556677'')
   \<and> fst (async_close example_env example_running) = Inr ()
   \<and> gateway (snd (async_close example_env example_running)) = None
   \<and> async_set_hvac_mode example_env ''dev1'' ''off''
        (snd (async_close example_env example_running))
       = (Inl (UpdateFailed ''Gateway not connected''),
          snd (async_close example_env example_running))"
  using command_without_gateway
      [where s = "coordinator_init ''10.0.0.5'' ''0011223344556677''" and env = example_env and device = "''dev1''" and temperature = 20
         and h = "''10.0.0.5''" and e = "''0011223344556677''"
         and env' = example_env and s' = example_running]
    command_without_gateway
      [where s = "snd (async_close example_env example_running)" and env = example_env
         and device = "''dev1''" and mode = "''off''"
         and env' = example_env and s' = example_running]
  by (simp add: async_close_def example_running_def example_env_def)

text \<open>
  C8. On a coordinator that holds a gateway, each of the three commands calls the gateway
  once; when that call returns normally the coordinator requests a refresh right after
  it, and when that call raises no refresh is requested. The regular poll interval is
  30 seconds.
\<close>

theorem command_requests_refresh:
  assumes "gateway s = Some g"
  shows "effects (snd (async_set_temperature env device temperature s)) =
           (if on_set_climate_device_temperature env device temperature = None
            then effects s
                 @ [Gateway (Set_climate_device_temperature device temperature), Request_refresh]
            else effects s @ [Gateway (Set_climate_device_temperature device temperature)])
         \<and> effects (snd (async_set_hvac_mode env device mode s)) =
           (if on_set_climate_device_mode env device mode = None
            then effects s @ [Gateway (Set_climate_device_mode device mode), Request_refresh]
            else effects s @ [Gateway (Set_climate_device_mode device mode)])
         \<and> effects (snd (async_set_preset_mode env device preset s)) =
           (if on_set_climate_device_preset env device preset = None
            then effects s @ [Gateway (Set_climate_device_preset device preset), Request_refresh]
            else effects s @ [Gateway (Set_climate_device_preset device preset)])
         \<and> DEFAULT_SCAN_INTERVAL = 30"
  using assms
  by (simp add: async_set_temperature_def async_set_hvac_mode_def async_set_preset_mode_def
      command_effects DEFAULT_SCAN_INTERVAL_def)

theorem command_requests_refresh_witness:
  "gateway example_running = Some (IT600Gateway ''10.0.0.5'' ''0011223344556677'')
   \<and> effects (snd (async_set_temperature example_env ''dev1'' 20 example_running))
       = [Gateway (Set_climate_device_temperature ''dev1'' 20), Request_refresh]
   \<and> effects (snd (async_set_hvac_mode
         (example_env\<lparr>on_set_climate_device_mode :=
            (\<lambda>d m. Some (IT600ConnectionError ''unreachable''))\<rparr>)
         ''dev1'' ''off'' example_running))
       = [Gateway (Set_climate_device_mode ''dev1'' ''off'')]"
  using command_requests_refresh
      [of example_running "IT600Gateway ''10.0.0.5'' ''0011223344556677''"
          example_env "''dev1''" 20]
    command_requests_refresh
      [of example_running "IT600Gateway ''10.0.0.5'' ''0011223344556677''"
          "example_env\<lparr>on_set_climate_device_mode :=
             (\<lambda>d m. Some (IT600ConnectionError ''unreachable''))\<rparr>"
          "''dev1''" _ "''off''"]
  by (simp add: example_running_def example_env_def)

subsection \<open>Closing\<close>


text \<open>
  \<^verbatim>\<open>async_close\<close> has no handler around the gateway's \<^verbatim>\<open>close\<close>. When that call
  raises, the exception passes through, the reference stays set, and a further call
  calls the gateway again.
\<close>

theorem async_close_raising_counterexample:
  "fst (async_close (example_env\<lparr>on_close := Some (Other_Exception ''session error'')\<rparr>) example_running) = Inl (Uncaught (Other_Exception ''session error''))
   \<and> gateway (snd (async_close (example_env\<lparr>on_close := Some (Other_Exception ''session error'')\<rparr>) example_running))
     = Some (IT600Gateway ''10.0.0.5'' ''0011223344556677'')
   \<and> effects (snd (async_close example_env (snd (async_close (example_env\<lparr>on_close := Some (Other_Exception ''session error'')\<rparr>) example_running))))
     = [Gateway Close, Gateway Close, Log DEBUG ''Closed connection to Salus gateway'']"
  by (simp add: async_close_def example_running_def example_env_def emit_def)

text \<open>
  C9, as amended. After a call of \<^verbatim>\<open>async_close\<close> that returns, the gateway reference
  is \<^verbatim>\<open>None\<close> and a further call, whatever the environment, returns without any effect
  and leaves the coordinator unchanged; so does a call on any coordinator whose gateway
  reference is \<^verbatim>\<open>None\<close>. When the gateway's \<^verbatim>\<open>close\<close> raises, the call raises the same
  exception and keeps the reference.
\<close>

theorem async_close_idempotent:
  "(fst (async_close env s) = Inr () \<longrightarrow>
      gateway (snd (async_close env s)) = None
      \<and> (\<forall>env'. async_close env' (snd (async_close env s))
                  = (Inr (), snd (async_close env s))))
   \<and> (\<forall>env' s'. gateway s' = None \<longrightarrow> async_close env' s' = (Inr (), s'))
   \<and> (\<forall>g e. gateway s = Some g \<and> on_close env = Some e \<longrightarrow>
         async_close env s = (Inl (Uncaught e), emit (Gateway Close) s)
         \<and> gateway (snd (async_close env s)) = Some g)"
proof -
  have returned: "fst (async_close env s) = Inr () \<longrightarrow>
      gateway (snd (async_close env s)) = None
      \<and> (\<forall>env'. async_close env' (snd (async_close env s))
                  = (Inr (), snd (async_close env s)))"
    by (simp add: async_close_returns async_close_closed)
  have closed: "\<forall>env' s'. gateway s' = None \<longrightarrow> async_close env' s' = (Inr (), s')"
    by (simp add: async_close_closed)
  have raised: "\<forall>g e. gateway s = Some g \<and> on_close env = Some e \<longrightarrow>
         async_close env s = (Inl (Uncaught e), emit (Gateway Close) s)
         \<and> gateway (snd (async_close env s)) = Some g"
    by (simp add: async_close_def)
  show ?thesis
    by (rule conjI [OF returned conjI [OF closed raised]])
qed

theorem async_close_idempotent_witness:
  "fst (async_close example_env example_running) = Inr ()
   \<and> gateway (snd (async_close example_env example_running)) = None
   \<and> effects (snd (async_close example_env example_running))
       = [Gateway Close, Log DEBUG ''Closed connection to Salus gateway'']
   \<and> async_close example_env (snd (async_close example_env example_running))
       = (Inr (), snd (async_close example_env example_running))
   \<and> async_close (example_env\<lparr>on_close := Some (Other_Exception ''session error'')\<rparr>) example_running
       = (Inl (Uncaught (Other_Exception ''session error'')),
          emit (Gateway Close) example_running)"
proof -
  have r: "fst (async_close example_env example_running) = Inr ()"
    by (simp add: async_close_def example_running_def example_env_def)
  have e: "effects (snd (async_close example_env example_running))
       = [Gateway Close, Log DEBUG ''Closed connection to Salus gateway'']"
    by (simp add: async_close_def example_running_def example_env_def)
  from async_close_idempotent [where env = example_env and s = example_running] r
  have g: "gateway (snd (async_close example_env example_running)) = None"
    and t: "async_close example_env (snd (async_close example_env example_running))
       = (Inr (), snd (async_close example_env example_running))"
    by simp_all
  have x: "async_close (example_env\<lparr>on_close := Some (Other_Exception ''session error'')\<rparr>) example_running
       = (Inl (Uncaught (Other_Exception ''session error'')),
          emit (Gateway Close) example_running)"
    using async_close_idempotent [where env = "example_env\<lparr>on_close := Some (Other_Exception ''session error'')\<rparr>" and s = example_running]
    by (simp add: example_running_def)
  show ?thesis
    by (rule conjI [OF r conjI [OF g conjI [OF e conjI [OF t x]]]])
qed

subsection \<open>Commands and the snapshot\<close>

text \<open>
  The coordinator never looks a device id up before it sends a command. With a
  snapshot that has no device "ghost", setting its temperature calls the gateway,
  requests a refresh and returns normally.
\<close>

theorem set_temperature_unknown_id_counterexample:
  "device_data example_running (entity_init ''ghost'' ''entry1'') = Inr None
   \<and> async_set_temperature example_env ''ghost'' 21 example_running
       = (Inr (),
          example_running\<lparr>effects :=
            [Gateway (Set_climate_device_temperature ''ghost'' 21), Request_refresh]\<rparr>)"
  by (simp add: device_data_def dict_get_def entity_init_def example_running_def
      async_set_temperature_def command_def example_env_def emit_def)


text \<open>
  C5, as amended. On a coordinator that holds a gateway, \<^verbatim>\<open>async_set_temperature\<close>
  calls the gateway's \<^verbatim>\<open>set_climate_device_temperature\<close> with the device id it was
  given, whatever the snapshot holds. When that call and the refresh request after it
  return, the command returns; when either raises an \<^verbatim>\<open>Exception\<close>, the library's
  connection and authentication errors included, the command raises \<^verbatim>\<open>UpdateFailed\<close>
  with the message "Failed to set temperature: " followed by the exception's text.
  Replacing the snapshot changes neither the result nor the effects.
\<close>

theorem set_temperature_forwards_any_id:
  assumes "gateway s = Some g"
  shows "(\<exists>rest. effects (snd (async_set_temperature env device temperature s))
                  = effects s @ Gateway (Set_climate_device_temperature device temperature) # rest)
         \<and> (on_set_climate_device_temperature env device temperature = None
            \<and> on_request_refresh env = None
            \<longrightarrow> fst (async_set_temperature env device temperature s) = Inr ())
         \<and> (\<forall>e. on_set_climate_device_temperature env device temperature = Some e
                 \<or> (on_set_climate_device_temperature env device temperature = None
                    \<and> on_request_refresh env = Some e)
              \<longrightarrow> fst (async_set_temperature env device temperature s) =
                    (case e of
                       IT600AuthenticationError m \<Rightarrow>
                         Inl (UpdateFailed (''Failed to set temperature: '' @ m))
                     | IT600ConnectionError m \<Rightarrow>
                         Inl (UpdateFailed (''Failed to set temperature: '' @ m))
                     | Other_Exception m \<Rightarrow>
                         Inl (UpdateFailed (''Failed to set temperature: '' @ m))
                     | Other_BaseException m \<Rightarrow> Inl (Uncaught (Other_BaseException m))))
         \<and> (\<forall>d. async_set_temperature env device temperature (s\<lparr>data := d\<rparr>)
                  = (fst (async_set_temperature env device temperature s),
                     (snd (async_set_temperature env device temperature s))\<lparr>data := d\<rparr>))"
proof -
  have called: "\<exists>rest. effects (snd (async_set_temperature env device temperature s))
                  = effects s @ Gateway (Set_climate_device_temperature device temperature) # rest"
    using assms by (simp add: async_set_temperature_def command_effects)
  have outcome: "(on_set_climate_device_temperature env device temperature = None
            \<and> on_request_refresh env = None
            \<longrightarrow> fst (async_set_temperature env device temperature s) = Inr ())
         \<and> (\<forall>e. on_set_climate_device_temperature env device temperature = Some e
                 \<or> (on_set_climate_device_temperature env device temperature = None
                    \<and> on_request_refresh env = Some e)
              \<longrightarrow> fst (async_set_temperature env device temperature s) =
                    (case e of
                       IT600AuthenticationError m \<Rightarrow>
                         Inl (UpdateFailed (''Failed to set temperature: '' @ m))
                     | IT600ConnectionError m \<Rightarrow>
                         Inl (UpdateFailed (''Failed to set temperature: '' @ m))
                     | Other_Exception m \<Rightarrow>
                         Inl (UpdateFailed (''Failed to set temperature: '' @ m))
                     | Other_BaseException m \<Rightarrow> Inl (Uncaught (Other_BaseException m))))"
    using assms
    by (auto simp add: async_set_temperature_def command_result command_handler_def
        split: exn.splits)
  have snapshot_unread:
    "\<forall>d. async_set_temperature env device temperature (s\<lparr>data := d\<rparr>)
                  = (fst (async_set_temperature env device temperature s),
                     (snd (async_set_temperature env device temperature s))\<lparr>data := d\<rparr>)"
    by (simp add: async_set_temperature_def command_data_update)
  show ?thesis
    using called outcome snapshot_unread by (intro conjI) simp_all
qed

theorem set_temperature_forwards_any_id_witness:
  "gateway example_running = Some (IT600Gateway ''10.0.0.5'' ''0011223344556677'')
   \<and> on_set_climate_device_temperature
        (example_env\<lparr>on_set_climate_device_temperature :=
           (\<lambda>d t. Some (IT600ConnectionError ''unreachable''))\<rparr>) ''ghost'' 21
       = Some (IT600ConnectionError ''unreachable'')
   \<and> effects (snd (async_set_temperature
        (example_env\<lparr>on_set_climate_device_temperature :=
           (\<lambda>d t. Some (IT600ConnectionError ''unreachable''))\<rparr>)
        ''ghost'' 21 example_running))
       = [Gateway (Set_climate_device_temperature ''ghost'' 21)]
   \<and> fst (async_set_temperature
        (example_env\<lparr>on_set_climate_device_temperature :=
           (\<lambda>d t. Some (IT600ConnectionError ''unreachable''))\<rparr>)
        ''ghost'' 21 example_running)
       = Inl (UpdateFailed ''Failed to set temperature: unreachable'')"
proof -
  have g: "gateway example_running = Some (IT600Gateway ''10.0.0.5'' ''0011223344556677'')"
    by (simp add: example_running_def)
  have a: "on_set_climate_device_temperature
        (example_env\<lparr>on_set_climate_device_temperature :=
           (\<lambda>d t. Some (IT600ConnectionError ''unreachable''))\<rparr>) ''ghost'' 21
       = Some (IT600ConnectionError ''unreachable'')"
    by simp
  have e: "effects (snd (async_set_temperature
        (example_env\<lparr>on_set_climate_device_temperature :=
           (\<lambda>d t. Some (IT600ConnectionError ''unreachable''))\<rparr>)
        ''ghost'' 21 example_running))
       = [Gateway (Set_climate_device_temperature ''ghost'' 21)]"
    by (simp add: example_running_def async_set_temperature_def command_def)
  have "fst (async_set_temperature
        (example_env\<lparr>on_set_climate_device_temperature :=
           (\<lambda>d t. Some (IT600ConnectionError ''unreachable''))\<rparr>)
        ''ghost'' 21 example_running)
       = (case IT600ConnectionError ''unreachable'' of
            IT600AuthenticationError m \<Rightarrow> Inl (UpdateFailed (''Failed to set temperature: '' @ m))
          | IT600ConnectionError m \<Rightarrow> Inl (UpdateFailed (''Failed to set temperature: '' @ m))
          | Other_Exception m \<Rightarrow> Inl (UpdateFailed (''Failed to set temperature: '' @ m))
          | Other_BaseException m \<Rightarrow> Inl (Uncaught (Other_BaseException m)))"
    using set_temperature_forwards_any_id [OF g, where env = "example_env\<lparr>on_set_climate_device_temperature :=
           (\<lambda>d t. Some (IT600ConnectionError ''unreachable''))\<rparr>"
        and device = "''ghost''" and temperature = 21] a
    by blast
  then have r: "fst (async_set_temperature
        (example_env\<lparr>on_set_climate_device_temperature :=
           (\<lambda>d t. Some (IT600ConnectionError ''unreachable''))\<rparr>)
        ''ghost'' 21 example_running)
       = Inl (UpdateFailed ''Failed to set temperature: unreachable'')"
    by simp
  show ?thesis
    by (rule conjI [OF g conjI [OF a conjI [OF e r]]])
qed

text \<open>
  The integration has no exception for an unsupported mode: setting the mode COOL,
  which the reverse table does not map, returns normally.
\<close>

theorem set_hvac_mode_unsupported_counterexample:
  "COOL \<notin> {HEAT, OFF, AUTO}
   \<and> fst (climate_async_set_hvac_mode example_env (entity_init ''dev1'' ''entry1'') COOL
            example_running) = Inr ()"
  by (simp add: climate_async_set_hvac_mode_def HVAC_MODE_REVERSE_MAP_cases)

text \<open>
  C4, as amended. For every mode other than HEAT, OFF and AUTO, the entity's
  \<^verbatim>\<open>async_set_hvac_mode\<close> returns normally after logging one warning: it raises nothing,
  calls no method of the gateway and requests no refresh.
\<close>

theorem set_hvac_mode_unsupported_warns:
  assumes "mode \<notin> {HEAT, OFF, AUTO}"
  shows "climate_async_set_hvac_mode env ent mode s
           = (Inr (), emit (Log WARNING ''Unsupported HVAC mode: %s'') s)
         \<and> effects (snd (climate_async_set_hvac_mode env ent mode s))
           = effects s @ [Log WARNING ''Unsupported HVAC mode: %s'']
         \<and> filter is_gateway_call (effects (snd (climate_async_set_hvac_mode env ent mode s)))
           = filter is_gateway_call (effects s)"
  using assms
  by (simp add: climate_async_set_hvac_mode_def HVAC_MODE_REVERSE_MAP_cases)

theorem set_hvac_mode_unsupported_warns_witness:
  "COOL \<notin> {HEAT, OFF, AUTO}
   \<and> climate_async_set_hvac_mode example_env (entity_init ''dev1'' ''entry1'') COOL
        example_running
       = (Inr (), example_running\<lparr>effects := [Log WARNING ''Unsupported HVAC mode: %s'']\<rparr>)"
  using set_hvac_mode_unsupported_warns
      [of COOL example_env "entity_init ''dev1'' ''entry1''" example_running]
  by (simp add: emit_def example_running_def)

subsection \<open>The entity's mode and action\<close>

text \<open>
  C7. For a device found in the snapshot, a raw \<^verbatim>\<open>hvac_mode\<close> with no entry in the mode
  table makes the \<^verbatim>\<open>hvac_mode\<close> property return HEAT, and a raw \<^verbatim>\<open>hvac_action\<close> with no
  entry in the action table makes the \<^verbatim>\<open>hvac_action\<close> property return IDLE; neither
  raises.
\<close>

theorem unmapped_raw_value_falls_back:
  assumes "device_data s ent = Inr (Some device)"
  shows "(\<forall>raw. dev_hvac_mode device = Some raw \<and> HVAC_MODE_MAP raw = None
            \<longrightarrow> hvac_mode s ent = Inr HEAT)
         \<and> (\<forall>raw. dev_hvac_action device = Some raw \<and> HVAC_ACTION_MAP raw = None
            \<longrightarrow> hvac_action s ent = Inr (Some IDLE))"
  using assms by (simp add: hvac_mode_def hvac_action_def dict_get_def)

theorem unmapped_raw_value_falls_back_witness:
  "device_data
     (example_running\<lparr>data := Some [''climate'' \<mapsto> [''dev1'' \<mapsto>
        example_device\<lparr>dev_hvac_mode := Some ''cool'', dev_hvac_action := Some ''cooling''\<rparr>]]\<rparr>)
     (entity_init ''dev1'' ''entry1'')
     = Inr (Some (example_device\<lparr>dev_hvac_mode := Some ''cool'',
                                   dev_hvac_action := Some ''cooling''\<rparr>))
   \<and> HVAC_MODE_MAP ''cool'' = None
   \<and> HVAC_ACTION_MAP ''cooling'' = None
   \<and> hvac_mode
       (example_running\<lparr>data := Some [''climate'' \<mapsto> [''dev1'' \<mapsto>
          example_device\<lparr>dev_hvac_mode := Some ''cool'', dev_hvac_action := Some ''cooling''\<rparr>]]\<rparr>)
       (entity_init ''dev1'' ''entry1'') = Inr HEAT
   \<and> hvac_action
       (example_running\<lparr>data := Some [''climate'' \<mapsto> [''dev1'' \<mapsto>
          example_device\<lparr>dev_hvac_mode := Some ''cool'', dev_hvac_action := Some ''cooling''\<rparr>]]\<rparr>)
       (entity_init ''dev1'' ''entry1'') = Inr (Some IDLE)"
  using unmapped_raw_value_falls_back
      [of "example_running\<lparr>data := Some [''climate'' \<mapsto> [''dev1'' \<mapsto>
            example_device\<lparr>dev_hvac_mode := Some ''cool'',
                            dev_hvac_action := Some ''cooling''\<rparr>]]\<rparr>"
          "entity_init ''dev1'' ''entry1''"
          "example_device\<lparr>dev_hvac_mode := Some ''cool'', dev_hvac_action := Some ''cooling''\<rparr>"]
  by (simp add: device_data_def dict_get_def entity_init_def
      HVAC_MODE_MAP_cases HVAC_ACTION_MAP_cases)

end
